theory Spec2Isabelle
  imports Main
begin

section \<open>The S3 synchronisation shim (src/main.go)\<close>

text \<open>
  The program reads its configuration from the process environment, renders a
  configuration file for rclone, runs rclone as a child process and removes the file.
  Everything the Go code does beyond computing values is explicit here: the environment
  is a map, errors are values, the file system, the error stream, the emitted log
  records and the commands run are fields of a \<open>world\<close> record that every
  effectful function takes and returns, and what the operating system answers to a call
  (a failing \<open>MkdirAll\<close>, the exit status of the child) is a parameter.
\<close>

subsection \<open>Errors\<close>

text \<open>
  A Go \<open>error\<close>. \<open>MissingVariable key\<close> is
  \<open>fmt.Errorf("required environment variable %s is not set", key)\<close>,
  \<open>Wrapped p e\<close> is \<open>fmt.Errorf(p + ": %w", e)\<close>, and \<open>External\<close> carries the text of
  an error made outside the program (by the operating system or by \<open>os/exec\<close>).
  \<open>Error\<close> is the method of the same name: the message.
\<close>

datatype error =
    MissingVariable string
  | External string
  | Wrapped string error

fun Error :: "error \<Rightarrow> string" where
  "Error (MissingVariable key) = ''required environment variable '' @ key @ '' is not set''"
| "Error (External msg) = msg"
| "Error (Wrapped p e) = p @ '': '' @ Error e"

subsection \<open>The standard library: environment and integers\<close>

text \<open>
  The environment maps names to values; \<open>os.Getenv\<close> answers the empty string for a
  name that is not set.
\<close>

type_synonym environ = "string \<rightharpoonup> string"

definition Getenv :: "environ \<Rightarrow> string \<Rightarrow> string" where
  "Getenv env key = (case env key of None \<Rightarrow> [] | Some v \<Rightarrow> v)"

text \<open>
  \<open>strconv.Atoi\<close> on a 64-bit platform: an optional sign, then one or more decimal
  digits and nothing else, the value within the range of \<open>int\<close>; anything else is
  an error (\<open>None\<close>). \<open>strconv.Itoa\<close> is the decimal rendering. A Go \<open>int\<close> is an
  \<open>int\<close> here: the program does no arithmetic on it, and \<open>Atoi\<close> is the only
  way a value enters.
\<close>

definition digit_val :: "char \<Rightarrow> nat option" where
  "digit_val ch =
     (let n = (of_char ch :: nat) in if 48 \<le> n \<and> n \<le> 57 then Some (n - 48) else None)"

fun parse_digits :: "nat \<Rightarrow> string \<Rightarrow> nat option" where
  "parse_digits n [] = Some n"
| "parse_digits n (ch # s) =
     (case digit_val ch of None \<Rightarrow> None | Some d \<Rightarrow> parse_digits (n * 10 + d) s)"

definition Atoi :: "string \<Rightarrow> int option" where
  "Atoi s0 =
     (let neg = (s0 \<noteq> [] \<and> hd s0 = CHR ''-'');
          s = (if s0 \<noteq> [] \<and> (hd s0 = CHR ''-'' \<or> hd s0 = CHR ''+'') then tl s0 else s0)
      in if s = [] then None
         else (case parse_digits 0 s of
                 None \<Rightarrow> None
               | Some n \<Rightarrow>
                   (let v = (if neg then - int n else int n)
                    in if - (2 ^ 63) \<le> v \<and> v < 2 ^ 63 then Some v else None)))"

fun digits :: "nat \<Rightarrow> string" where
  "digits n =
     (if n < 10 then [''0123456789'' ! n]
      else digits (n div 10) @ [''0123456789'' ! (n mod 10)])"

definition Itoa :: "int \<Rightarrow> string" where
  "Itoa i = (if i < 0 then CHR ''-'' # digits (nat (- i)) else digits (nat i))"

subsection \<open>The configuration record and its loader\<close>

record Config =
  SourceEndpoint :: string
  SourceAccessKey :: string
  SourceSecretKey :: string
  SourceBucket :: string
  DestEndpoint :: string
  DestAccessKey :: string
  DestSecretKey :: string
  DestBucket :: string
  DestPrefix :: string
  DryRun :: bool
  MaxDelete :: int
  Retries :: int
  BandwidthLimit :: string
  LogLevel :: string

definition getEnvOrDefault :: "environ \<Rightarrow> string \<Rightarrow> string \<Rightarrow> string" where
  "getEnvOrDefault env key defaultValue =
     (let value = Getenv env key in if value \<noteq> [] then value else defaultValue)"

definition getEnvIntOrDefault :: "environ \<Rightarrow> string \<Rightarrow> int \<Rightarrow> int" where
  "getEnvIntOrDefault env key defaultValue =
     (let value = Getenv env key
      in if value \<noteq> [] then
           (case Atoi value of Some intValue \<Rightarrow> intValue | None \<Rightarrow> defaultValue)
         else defaultValue)"

text \<open>
  \<open>validateConfig\<close> ranges over a Go map, and Go leaves the order of that iteration
  open: it may differ from one run to the next. The order in which a run visits the
  keys is the parameter \<open>order\<close>; \<open>range_order\<close> says that it visits each key of the
  map once. The loop returns at the first empty value it meets.
\<close>

definition required_names :: "string list" where
  "required_names =
     [''SOURCE_S3_ENDPOINT'', ''SOURCE_ACCESS_KEY'', ''SOURCE_SECRET_KEY'', ''SOURCE_BUCKET'',
      ''DEST_S3_ENDPOINT'', ''DEST_ACCESS_KEY'', ''DEST_SECRET_KEY'', ''DEST_BUCKET'']"

definition range_order :: "string list \<Rightarrow> bool" where
  "range_order order = (distinct order \<and> set order = set required_names)"

definition required :: "Config \<Rightarrow> (string \<rightharpoonup> string)" where
  "required config =
     [''SOURCE_S3_ENDPOINT'' \<mapsto> SourceEndpoint config,
      ''SOURCE_ACCESS_KEY'' \<mapsto> SourceAccessKey config,
      ''SOURCE_SECRET_KEY'' \<mapsto> SourceSecretKey config,
      ''SOURCE_BUCKET'' \<mapsto> SourceBucket config,
      ''DEST_S3_ENDPOINT'' \<mapsto> DestEndpoint config,
      ''DEST_ACCESS_KEY'' \<mapsto> DestAccessKey config,
      ''DEST_SECRET_KEY'' \<mapsto> DestSecretKey config,
      ''DEST_BUCKET'' \<mapsto> DestBucket config]"

fun range_required :: "(string \<rightharpoonup> string) \<Rightarrow> string list \<Rightarrow> error option" where
  "range_required m [] = None"
| "range_required m (key # keys) =
     (case m key of
        None \<Rightarrow> range_required m keys
      | Some value \<Rightarrow>
          if value = [] then Some (MissingVariable key) else range_required m keys)"

definition validateConfig :: "string list \<Rightarrow> Config \<Rightarrow> error option" where
  "validateConfig order config = range_required (required config) order"

definition loadConfig :: "string list \<Rightarrow> environ \<Rightarrow> error + Config" where
  "loadConfig order env =
     (let sourceBucket = getEnvOrDefault env ''SOURCE_BUCKET'' [];
          config = \<lparr>
            SourceEndpoint = getEnvOrDefault env ''SOURCE_S3_ENDPOINT'' [],
            SourceAccessKey = getEnvOrDefault env ''SOURCE_ACCESS_KEY'' [],
            SourceSecretKey = getEnvOrDefault env ''SOURCE_SECRET_KEY'' [],
            SourceBucket = sourceBucket,
            DestEndpoint = getEnvOrDefault env ''DEST_S3_ENDPOINT'' [],
            DestAccessKey = getEnvOrDefault env ''DEST_ACCESS_KEY'' [],
            DestSecretKey = getEnvOrDefault env ''DEST_SECRET_KEY'' [],
            DestBucket = getEnvOrDefault env ''DEST_BUCKET'' [],
            DestPrefix = getEnvOrDefault env ''DEST_PREFIX'' sourceBucket,
            DryRun = (getEnvOrDefault env ''DRY_RUN'' ''false'' = ''true''),
            MaxDelete = getEnvIntOrDefault env ''MAX_DELETE'' 1000,
            Retries = getEnvIntOrDefault env ''RETRIES'' 3,
            BandwidthLimit = getEnvOrDefault env ''BANDWIDTH_LIMIT'' [],
            LogLevel = getEnvOrDefault env ''LOG_LEVEL'' ''info'' \<rparr>
      in case validateConfig order config of
           Some err \<Rightarrow> Inl (Wrapped ''configuration validation failed'' err)
         | None \<Rightarrow> Inr config)"

subsection \<open>The world outside the program\<close>

text \<open>
  A file has a content and permission bits; a mode is written as its number, so
  \<open>0600\<close> is \<open>384\<close> and \<open>0700\<close> is \<open>448\<close> (\<open>mode_0600\<close>, \<open>mode_0700\<close>).
  A log record has a level, a message and its fields, in the order the source lists
  them; the time stamp logrus adds is left out.
\<close>

record fsfile =
  content :: string
  perm :: nat

definition mode_0600 :: nat where
  "mode_0600 = 6 * 8 * 8 + 0 * 8 + 0"

definition mode_0700 :: nat where
  "mode_0700 = 7 * 8 * 8 + 0 * 8 + 0"

datatype Level = PanicLevel | FatalLevel | ErrorLevel | WarnLevel | InfoLevel | DebugLevel | TraceLevel

datatype field = Str string | Bool bool | Strs "string list" | Duration nat | Err error

record entry =
  level :: Level
  message :: string
  data :: "(string \<times> field) list"

record world =
  files :: "string \<rightharpoonup> fsfile"
  dirs :: "string \<rightharpoonup> nat"
  stderr :: string
  records :: "entry list"
  commands :: "(string \<times> string list) list"

text \<open>
  What the operating system answers during one run: the error text of \<open>os.MkdirAll\<close>
  and of \<open>os.WriteFile\<close> (\<open>None\<close> when the call succeeds), how the child process ends,
  and the time \<open>time.Since\<close> measures, in nanoseconds.
\<close>

datatype run_outcome = Exited nat | Signaled string | StartFailed string

record os_behaviour =
  mkdir_result :: "string option"
  write_result :: "string option"
  run_result :: run_outcome
  elapsed :: nat

text \<open>
  The calls. A failing \<open>MkdirAll\<close> or \<open>WriteFile\<close> is taken to fail before it changes
  anything. \<open>MkdirAll\<close> leaves a directory that exists as it is. \<open>WriteFile\<close>
  creates the file with the permission bits passed when there is none at the path (the
  umask is taken to leave the owner's bits alone), and replaces the content of a file
  that exists without changing its permission bits. \<open>os.Remove\<close>, whose result the
  program ignores, removes the file.
\<close>

definition os_MkdirAll :: "os_behaviour \<Rightarrow> string \<Rightarrow> nat \<Rightarrow> world \<Rightarrow> error option \<times> world" where
  "os_MkdirAll os path mode w =
     (case mkdir_result os of
        Some msg \<Rightarrow> (Some (External msg), w)
      | None \<Rightarrow>
          (None, if path \<in> dom (dirs w) then w else w\<lparr>dirs := (dirs w)(path \<mapsto> mode)\<rparr>))"

definition os_WriteFile ::
  "os_behaviour \<Rightarrow> string \<Rightarrow> string \<Rightarrow> nat \<Rightarrow> world \<Rightarrow> error option \<times> world" where
  "os_WriteFile os name bytes mode w =
     (case write_result os of
        Some msg \<Rightarrow> (Some (External msg), w)
      | None \<Rightarrow>
          (None,
           w\<lparr>files := (files w)(name \<mapsto>
               (case files w name of
                  None \<Rightarrow> \<lparr>content = bytes, perm = mode\<rparr>
                | Some f \<Rightarrow> f\<lparr>content := bytes\<rparr>))\<rparr>))"

definition os_Remove :: "string \<Rightarrow> world \<Rightarrow> world" where
  "os_Remove name w = w\<lparr>files := (files w)(name := None)\<rparr>"

text \<open>
  \<open>cmd.Run\<close> with the parent's own output streams: the world keeps the command the
  program asked to run, and the call returns no error exactly when the child started and
  exited with status zero.
\<close>

definition cmd_Run :: "os_behaviour \<Rightarrow> string \<Rightarrow> string list \<Rightarrow> world \<Rightarrow> error option \<times> world" where
  "cmd_Run os name args w =
     (case run_result os of
        StartFailed msg \<Rightarrow> Some (External msg)
      | Signaled msg \<Rightarrow> Some (External msg)
      | Exited status \<Rightarrow>
          if status = 0 then None else Some (External (''exit status '' @ Itoa (int status))),
      w\<lparr>commands := commands w @ [(name, args)]\<rparr>)"

subsection \<open>The logger\<close>

text \<open>
  A logrus logger is its level. \<open>ParseLevel\<close> compares \<open>strings.ToLower\<close> of the
  name with the seven level names. \<open>ToLower\<close> works on the bytes of the UTF-8 string:
  it lower-cases the ASCII letters and the two other characters whose lower case is an
  ASCII letter, the dotted capital I (bytes C4 B0, to \<open>i\<close>) and the Kelvin sign (bytes
  E2 84 AA, to \<open>k\<close>). Every other byte outside ASCII is left as it is: Go maps it to
  bytes outside ASCII as well, so the comparison with the level names comes out the
  same. A record is emitted when its level is enabled. \<open>Fatal\<close> ends the process with
  status 1 after logging, which \<open>main\<close> below returns.
\<close>

definition to_lower :: "char \<Rightarrow> char" where
  "to_lower ch =
     (case map_of (zip ''ABCDEFGHIJKLMNOPQRSTUVWXYZ'' ''abcdefghijklmnopqrstuvwxyz'') ch of
        Some l \<Rightarrow> l
      | None \<Rightarrow> ch)"

fun ToLower :: "string \<Rightarrow> string" where
  "ToLower (a # b # c # s) =
     (if a = CHR 0xE2 \<and> b = CHR 0x84 \<and> c = CHR 0xAA then CHR ''k'' # ToLower s
      else if a = CHR 0xC4 \<and> b = CHR 0xB0 then CHR ''i'' # ToLower (c # s)
      else to_lower a # ToLower (b # c # s))"
| "ToLower [a, b] =
     (if a = CHR 0xC4 \<and> b = CHR 0xB0 then [CHR ''i''] else [to_lower a, to_lower b])"
| "ToLower [a] = [to_lower a]"
| "ToLower [] = []"

definition ParseLevel :: "string \<Rightarrow> Level option" where
  "ParseLevel lvl =
     (let l = ToLower lvl
      in if l = ''panic'' then Some PanicLevel
         else if l = ''fatal'' then Some FatalLevel
         else if l = ''error'' then Some ErrorLevel
         else if l = ''warn'' \<or> l = ''warning'' then Some WarnLevel
         else if l = ''info'' then Some InfoLevel
         else if l = ''debug'' then Some DebugLevel
         else if l = ''trace'' then Some TraceLevel
         else None)"

fun rank :: "Level \<Rightarrow> nat" where
  "rank PanicLevel = 0"
| "rank FatalLevel = 1"
| "rank ErrorLevel = 2"
| "rank WarnLevel = 3"
| "rank InfoLevel = 4"
| "rank DebugLevel = 5"
| "rank TraceLevel = 6"

definition setupLogger :: "string \<Rightarrow> Level" where
  "setupLogger lvl = (case ParseLevel lvl of None \<Rightarrow> InfoLevel | Some logLevel \<Rightarrow> logLevel)"

definition emit :: "Level \<Rightarrow> Level \<Rightarrow> (string \<times> field) list \<Rightarrow> string \<Rightarrow> world \<Rightarrow> world" where
  "emit logger lvl fs msg w =
     (if rank lvl \<le> rank logger
      then w\<lparr>records := records w @ [\<lparr>level = lvl, message = msg, data = fs\<rparr>]\<rparr>
      else w)"

subsection \<open>Rendering the credential file and running the engine\<close>

definition createRcloneConfig :: "os_behaviour \<Rightarrow> Config \<Rightarrow> world \<Rightarrow> (error + string) \<times> world" where
  "createRcloneConfig os config w =
     (let configDir = ''/tmp/rclone-config''
      in case os_MkdirAll os configDir mode_0700 w of
           (Some err, w1) \<Rightarrow> (Inl (Wrapped ''failed to create rclone config directory'' err), w1)
         | (None, w1) \<Rightarrow>
             (let configFile = configDir @ ''/'' @ ''rclone.conf'';
                  configContent =
                    ''[source]\<newline>'' @
                    ''type = s3\<newline>'' @
                    ''provider = Other\<newline>'' @
                    ''access_key_id = '' @ SourceAccessKey config @ ''\<newline>'' @
                    ''secret_access_key = '' @ SourceSecretKey config @ ''\<newline>'' @
                    ''endpoint = '' @ SourceEndpoint config @ ''\<newline>'' @
                    ''acl = private\<newline>'' @
                    ''\<newline>'' @
                    ''[dest]\<newline>'' @
                    ''type = s3\<newline>'' @
                    ''provider = Other\<newline>'' @
                    ''access_key_id = '' @ DestAccessKey config @ ''\<newline>'' @
                    ''secret_access_key = '' @ DestSecretKey config @ ''\<newline>'' @
                    ''endpoint = '' @ DestEndpoint config @ ''\<newline>'' @
                    ''acl = private\<newline>''
              in case os_WriteFile os configFile configContent mode_0600 w1 of
                   (Some err, w2) \<Rightarrow> (Inl (Wrapped ''failed to write rclone config'' err), w2)
                 | (None, w2) \<Rightarrow> (Inr configFile, w2)))"

text \<open>
  \<open>runSync\<close>. The deferred \<open>os.Remove\<close> is registered once the file is written, so it
  runs when the function returns on either path after that point, and not on the
  early return before it.
\<close>

definition runSync :: "os_behaviour \<Rightarrow> Config \<Rightarrow> Level \<Rightarrow> world \<Rightarrow> error option \<times> world" where
  "runSync os config logger w =
     (case createRcloneConfig os config w of
        (Inl err, w1) \<Rightarrow> (Some (Wrapped ''failed to create rclone config'' err), w1)
      | (Inr configFile, w1) \<Rightarrow>
          (let sourceRemote = ''source:'' @ SourceBucket config;
               destRemote = ''dest:'' @ DestBucket config @ ''/'' @ DestPrefix config;
               args0 =
                 [''sync'',
                  sourceRemote,
                  destRemote,
                  ''--config'', configFile,
                  ''--delete-during'',
                  ''--checksum'',
                  ''--retries'', Itoa (Retries config),
                  ''--stats'', ''1m'',
                  ''--stats-log-level'', ''INFO'',
                  ''--progress''];
               args1 = (if DryRun config then args0 @ [''--dry-run''] else args0);
               w2 = (if DryRun config
                     then emit logger InfoLevel []
                            ''Running in dry-run mode - no changes will be made'' w1
                     else w1);
               args2 = (if MaxDelete config > 0
                        then args1 @ [''--max-delete'', Itoa (MaxDelete config)] else args1);
               args = (if BandwidthLimit config \<noteq> []
                       then args2 @ [''--bwlimit'', BandwidthLimit config] else args2);
               w3 = emit logger InfoLevel
                      [(''source'', Str sourceRemote), (''dest'', Str destRemote), (''args'', Strs args)]
                      ''Starting rclone sync'' w2;
               (err, w4) = cmd_Run os ''rclone'' args w3;
               duration = elapsed os;
               w5 = emit logger InfoLevel
                      [(''duration'', Duration duration), (''success'', Bool (err = None))]
                      ''Sync operation completed'' w4;
               result = (case err of
                           Some e \<Rightarrow> Some (Wrapped ''rclone sync failed'' e)
                         | None \<Rightarrow> None)
           in (result, os_Remove configFile w5)))"

text \<open>
  \<open>main\<close> returns the exit status of the process with the world it leaves. The
  configuration error goes to the error stream, not to the logger, which does not
  exist yet.
\<close>

definition main :: "string list \<Rightarrow> os_behaviour \<Rightarrow> environ \<Rightarrow> world \<Rightarrow> nat \<times> world" where
  "main order os env w =
     (case loadConfig order env of
        Inl err \<Rightarrow>
          (1, w\<lparr>stderr := stderr w @ ''Configuration error: '' @ Error err @ ''\<newline>''\<rparr>)
      | Inr config \<Rightarrow>
          (let logger = setupLogger (LogLevel config);
               w1 = emit logger InfoLevel
                      [(''source_bucket'', Str (SourceBucket config)),
                       (''dest_bucket'', Str (DestBucket config)),
                       (''dest_prefix'', Str (DestPrefix config)),
                       (''dry_run'', Bool (DryRun config))]
                      ''Starting S3 sync job'' w
           in case runSync os config logger w1 of
                (Some err, w2) \<Rightarrow>
                  (1, emit logger FatalLevel [(''error'', Err err)] ''Sync operation failed'' w2)
              | (None, w2) \<Rightarrow>
                  (0, emit logger InfoLevel [] ''S3 sync job completed successfully'' w2)))"

subsection \<open>Reading what the program produced\<close>





text \<open>
  The argument list is read the way the engine's command line is: a flag that takes a
  value takes the next argument, whatever it looks like; every other argument stands
  alone. \<open>takes_value\<close> lists the flags of \<open>runSync\<close> that are followed by a value.
\<close>

definition takes_value :: "string \<Rightarrow> bool" where
  "takes_value flag =
     (flag \<in> set [''--config'', ''--retries'', ''--stats'', ''--stats-log-level'',
                  ''--max-delete'', ''--bwlimit''])"

fun read_flags :: "string list \<Rightarrow> (string \<times> string option) list" where
  "read_flags [] = []"
| "read_flags [a] = [(a, None)]"
| "read_flags (a # v # rest) =
     (if takes_value a then (a, Some v) # read_flags rest
      else (a, None) # read_flags (v # rest))"

text \<open>
  What validation sees of an environment: the eight required names with the values
  \<open>os.Getenv\<close> gives them.
\<close>

definition env_required :: "environ \<Rightarrow> (string \<rightharpoonup> string)" where
  "env_required env = (\<lambda>k. if k \<in> set required_names then Some (Getenv env k) else None)"

subsection \<open>A concrete run\<close>

text \<open>
  An environment with the eight required variables and nothing else, the configuration
  it loads to, an operating system on which every call succeeds, and an empty world.
\<close>

definition env_ok :: environ where
  "env_ok =
     [''SOURCE_S3_ENDPOINT'' \<mapsto> ''https://s3.src.example'',
      ''SOURCE_ACCESS_KEY'' \<mapsto> ''SRCKEY'',
      ''SOURCE_SECRET_KEY'' \<mapsto> ''SRCSECRET'',
      ''SOURCE_BUCKET'' \<mapsto> ''media'',
      ''DEST_S3_ENDPOINT'' \<mapsto> ''https://s3.dst.example'',
      ''DEST_ACCESS_KEY'' \<mapsto> ''DSTKEY'',
      ''DEST_SECRET_KEY'' \<mapsto> ''DSTSECRET'',
      ''DEST_BUCKET'' \<mapsto> ''backup'']"

definition config_ok :: Config where
  "config_ok =
     \<lparr>SourceEndpoint = ''https://s3.src.example'',
      SourceAccessKey = ''SRCKEY'',
      SourceSecretKey = ''SRCSECRET'',
      SourceBucket = ''media'',
      DestEndpoint = ''https://s3.dst.example'',
      DestAccessKey = ''DSTKEY'',
      DestSecretKey = ''DSTSECRET'',
      DestBucket = ''backup'',
      DestPrefix = ''media'',
      DryRun = False,
      MaxDelete = 1000,
      Retries = 3,
      BandwidthLimit = [],
      LogLevel = ''info''\<rparr>"

definition os_ok :: os_behaviour where
  "os_ok = \<lparr>mkdir_result = None, write_result = None, run_result = Exited 0, elapsed = 1500\<rparr>"

definition world0 :: world where
  "world0 = \<lparr>files = Map.empty, dirs = Map.empty, stderr = [], records = [], commands = []\<rparr>"


section \<open>Properties\<close>

subsection \<open>Loading: auxiliary facts\<close>

lemma getEnvOrDefault_empty: "getEnvOrDefault env key [] = Getenv env key"
  by (simp add: getEnvOrDefault_def Let_def)

lemma Getenv_empty_iff: "Getenv env key = [] \<longleftrightarrow> env key = None \<or> env key = Some []"
  by (cases "env key") (simp_all add: Getenv_def)

lemma Atoi_empty: "Atoi [] = None"
  by (simp add: Atoi_def)

lemma getEnvIntOrDefault_cases:
  "getEnvIntOrDefault env key d =
     (case env key of
        None \<Rightarrow> d
      | Some v \<Rightarrow> (case Atoi v of None \<Rightarrow> d | Some i \<Rightarrow> i))"
  by (cases "env key") (auto simp: getEnvIntOrDefault_def Getenv_def Let_def Atoi_empty)

lemma range_required_None:
  "range_required m keys = None \<longleftrightarrow> (\<forall>k\<in>set keys. m k \<noteq> Some [])"
  by (induction keys) (auto split: option.splits)

lemma range_required_Some:
  "range_required m keys = Some e \<Longrightarrow> \<exists>k\<in>set keys. e = MissingVariable k \<and> m k = Some []"
  by (induction keys) (auto split: option.splits if_splits)

lemma range_required_cong:
  "(\<And>k. k \<in> set keys \<Longrightarrow> (m k = None \<longleftrightarrow> m' k = None) \<and> (m k = Some [] \<longleftrightarrow> m' k = Some [])) \<Longrightarrow>
   range_required m keys = range_required m' keys"
proof (induction keys)
  case Nil
  then show ?case by simp
next
  case (Cons key keys)
  have tl: "range_required m keys = range_required m' keys"
    using Cons by simp
  have hd: "(m key = None \<longleftrightarrow> m' key = None) \<and> (m key = Some [] \<longleftrightarrow> m' key = Some [])"
    using Cons.prems[of key] by simp
  show ?case
  proof (cases "m key")
    case None
    then show ?thesis using hd tl by simp
  next
    case (Some v)
    then obtain v' where "m' key = Some v'" using hd by (cases "m' key") auto
    then show ?thesis using Some hd tl by auto
  qed
qed

lemma range_order_required_names: "range_order required_names"
  by (simp add: range_order_def required_names_def)

lemma range_order_rev: "range_order (rev required_names)"
proof -
  have "distinct required_names" by (simp add: required_names_def)
  then show ?thesis by (simp add: range_order_def)
qed

lemma range_order_front:
  assumes "k \<in> set required_names"
  shows "range_order (k # remove1 k required_names)"
proof -
  have d: "distinct required_names" by (simp add: required_names_def)
  then have "distinct (k # remove1 k required_names)" by simp
  moreover have "set (k # remove1 k required_names) = set required_names"
    using assms d by auto
  ultimately show ?thesis by (simp add: range_order_def)
qed

lemma loadConfig_split:
  "loadConfig order env =
     (case validateConfig order (projr (loadConfig [] env)) of
        Some err \<Rightarrow> Inl (Wrapped ''configuration validation failed'' err)
      | None \<Rightarrow> loadConfig [] env)"
  by (simp add: loadConfig_def Let_def validateConfig_def cong: option.case_cong)

lemma required_loaded: "required (projr (loadConfig [] env)) = env_required env"
  by (rule ext)
     (simp add: loadConfig_def Let_def validateConfig_def required_def env_required_def
        required_names_def getEnvOrDefault_empty)

lemma loadConfig_cases:
  "loadConfig order env =
     (case range_required (env_required env) order of
        Some err \<Rightarrow> Inl (Wrapped ''configuration validation failed'' err)
      | None \<Rightarrow> loadConfig [] env)"
  using loadConfig_split[of order env] by (simp add: validateConfig_def required_loaded)

lemma loadConfig_empty_order: "\<exists>c. loadConfig [] env = Inr c"
  by (simp add: loadConfig_def validateConfig_def Let_def)

lemma loadConfig_Inr_eq:
  assumes "loadConfig order env = Inr config"
  shows "config = projr (loadConfig [] env)"
  using assms loadConfig_cases[of order env]
  by (cases "range_required (env_required env) order") auto

lemma loaded_DryRun:
  "DryRun (projr (loadConfig [] env)) = (env ''DRY_RUN'' = Some ''true'')"
  by (cases "env ''DRY_RUN''")
     (simp_all add: loadConfig_def Let_def validateConfig_def getEnvOrDefault_def Getenv_def)

lemma loaded_DestPrefix:
  "DestPrefix (projr (loadConfig [] env)) =
     (if Getenv env ''DEST_PREFIX'' = [] then Getenv env ''SOURCE_BUCKET''
      else Getenv env ''DEST_PREFIX'')"
  by (simp add: loadConfig_def Let_def validateConfig_def getEnvOrDefault_def)

lemma loaded_SourceBucket:
  "SourceBucket (projr (loadConfig [] env)) = Getenv env ''SOURCE_BUCKET''"
  by (simp add: loadConfig_def Let_def validateConfig_def getEnvOrDefault_def)

lemma loaded_MaxDelete:
  "MaxDelete (projr (loadConfig [] env)) = getEnvIntOrDefault env ''MAX_DELETE'' 1000"
  by (simp add: loadConfig_def Let_def validateConfig_def)

lemma loaded_Retries:
  "Retries (projr (loadConfig [] env)) = getEnvIntOrDefault env ''RETRIES'' 3"
  by (simp add: loadConfig_def Let_def validateConfig_def)

lemma loadConfig_succeeds:
  assumes "range_order order" and "\<forall>k\<in>set required_names. Getenv env k \<noteq> []"
  shows "loadConfig order env = loadConfig [] env"
proof -
  have "range_required (env_required env) order = None"
    using assms by (simp add: range_required_None range_order_def env_required_def)
  then show ?thesis using loadConfig_cases[of order env] by simp
qed

lemma loadConfig_fails:
  assumes "range_order order" and "k0 \<in> set required_names" and "Getenv env k0 = []"
  shows "\<exists>k\<in>set required_names. Getenv env k = [] \<and>
           loadConfig order env =
             Inl (Wrapped ''configuration validation failed'' (MissingVariable k))"
proof -
  have "range_required (env_required env) order \<noteq> None"
    using assms by (auto simp: range_required_None range_order_def env_required_def)
  then obtain e where e: "range_required (env_required env) order = Some e" by blast
  from range_required_Some[OF e] obtain k where
    k: "k \<in> set order" "e = MissingVariable k" "env_required env k = Some []" by blast
  have "k \<in> set required_names" using k(1) assms(1) by (simp add: range_order_def)
  moreover have "Getenv env k = []" using k(3) by (simp add: env_required_def split: if_splits)
  moreover have "loadConfig order env =
      Inl (Wrapped ''configuration validation failed'' (MissingVariable k))"
    using loadConfig_cases[of order env] e k(2) by simp
  ultimately show ?thesis by blast
qed

lemma env_ok_present: "\<forall>k\<in>set required_names. Getenv env_ok k \<noteq> []"
  by (simp add: required_names_def Getenv_def env_ok_def)

lemma env_required_other:
  "key \<notin> set required_names \<Longrightarrow> env_required (env(key \<mapsto> v)) = env_required env"
  by (rule ext) (auto simp: env_required_def Getenv_def)

subsection \<open>Effects: auxiliary facts\<close>

lemma emit_files [simp]: "files (emit l lv fs m w) = files w"
  and emit_dirs [simp]: "dirs (emit l lv fs m w) = dirs w"
  and emit_stderr [simp]: "stderr (emit l lv fs m w) = stderr w"
  and emit_commands [simp]: "commands (emit l lv fs m w) = commands w"
  by (simp_all add: emit_def)

lemma emit_records:
  "records (emit l lv fs m w) =
     records w @ (if rank lv \<le> rank l then [\<lparr>level = lv, message = m, data = fs\<rparr>] else [])"
  by (simp add: emit_def)

lemma cmd_Run_fst:
  "fst (cmd_Run os name args w) =
     (case run_result os of
        StartFailed msg \<Rightarrow> Some (External msg)
      | Signaled msg \<Rightarrow> Some (External msg)
      | Exited status \<Rightarrow>
          if status = 0 then None else Some (External (''exit status '' @ Itoa (int status))))"
  by (simp add: cmd_Run_def)

lemma cmd_Run_snd: "snd (cmd_Run os name args w) = w\<lparr>commands := commands w @ [(name, args)]\<rparr>"
  by (simp add: cmd_Run_def)

lemma os_Remove_simps [simp]:
  "files (os_Remove p w) = (files w)(p := None)"
  "dirs (os_Remove p w) = dirs w"
  "stderr (os_Remove p w) = stderr w"
  "records (os_Remove p w) = records w"
  "commands (os_Remove p w) = commands w"
  by (simp_all add: os_Remove_def)

lemma createRcloneConfig_fst:
  "fst (createRcloneConfig os config w) =
     (case mkdir_result os of
        Some msg \<Rightarrow> Inl (Wrapped ''failed to create rclone config directory'' (External msg))
      | None \<Rightarrow>
          (case write_result os of
             Some msg \<Rightarrow> Inl (Wrapped ''failed to write rclone config'' (External msg))
           | None \<Rightarrow> Inr ''/tmp/rclone-config/rclone.conf''))"
  by (simp add: createRcloneConfig_def os_MkdirAll_def os_WriteFile_def Let_def
      split: option.splits)

lemma createRcloneConfig_unchanged [simp]:
  "stderr (snd (createRcloneConfig os config w)) = stderr w"
  "records (snd (createRcloneConfig os config w)) = records w"
  "commands (snd (createRcloneConfig os config w)) = commands w"
  by (simp_all add: createRcloneConfig_def os_MkdirAll_def os_WriteFile_def Let_def
      split: option.splits)


lemma createRcloneConfig_fst_any:
  "fst (createRcloneConfig os config' w') = fst (createRcloneConfig os config w)"
  by (simp add: createRcloneConfig_fst)

lemma runSync_result:
  assumes "fst (createRcloneConfig os config w) = Inr configFile"
  shows "fst (runSync os config logger w) =
     (case run_result os of
        Exited status \<Rightarrow>
          if status = 0 then None
          else Some (Wrapped ''rclone sync failed'' (External (''exit status '' @ Itoa (int status))))
      | Signaled msg \<Rightarrow> Some (Wrapped ''rclone sync failed'' (External msg))
      | StartFailed msg \<Rightarrow> Some (Wrapped ''rclone sync failed'' (External msg)))"
  using assms
  by (simp add: runSync_def split_def Let_def cmd_Run_fst split: run_outcome.splits)

lemma runSync_files:
  assumes "fst (createRcloneConfig os config w) = Inr configFile"
  shows "files (snd (runSync os config logger w)) configFile = None"
  using assms by (simp add: runSync_def split_def Let_def)

lemma runSync_commands:
  assumes "fst (createRcloneConfig os config w) = Inr configFile"
  shows "commands (snd (runSync os config logger w)) =
     commands w @
       [(''rclone'',
         [''sync'', ''source:'' @ SourceBucket config,
          ''dest:'' @ DestBucket config @ ''/'' @ DestPrefix config,
          ''--config'', configFile, ''--delete-during'', ''--checksum'',
          ''--retries'', Itoa (Retries config), ''--stats'', ''1m'',
          ''--stats-log-level'', ''INFO'', ''--progress''] @
         (if DryRun config then [''--dry-run''] else []) @
         (if MaxDelete config > 0 then [''--max-delete'', Itoa (MaxDelete config)] else []) @
         (if BandwidthLimit config \<noteq> [] then [''--bwlimit'', BandwidthLimit config] else []))]"
  using assms by (simp add: runSync_def split_def Let_def cmd_Run_snd)

lemma runSync_records_keys:
  "records (snd (runSync os
      (config\<lparr>SourceAccessKey := a, SourceSecretKey := b, DestAccessKey := c, DestSecretKey := d\<rparr>)
      logger w)) =
   records (snd (runSync os config logger w))"
  by (simp add: runSync_def split_def Let_def cmd_Run_snd cmd_Run_fst createRcloneConfig_fst
      emit_records split: option.splits)

lemma runSync_fst_keys:
  "fst (runSync os
      (config\<lparr>SourceAccessKey := a, SourceSecretKey := b, DestAccessKey := c, DestSecretKey := d\<rparr>)
      logger w) =
   fst (runSync os config logger w)"
  by (simp add: runSync_def split_def Let_def cmd_Run_snd cmd_Run_fst createRcloneConfig_fst
      emit_records split: option.splits)

lemma main_Inl:
  "loadConfig order env = Inl err \<Longrightarrow>
   main order os env w =
     (1, w\<lparr>stderr := stderr w @ ''Configuration error: '' @ Error err @ ''\<newline>''\<rparr>)"
  by (simp add: main_def)

lemma main_Inr_status:
  "loadConfig order env = Inr config \<Longrightarrow>
   fst (main order os env w) =
     (if fst (runSync os config (setupLogger (LogLevel config))
            (emit (setupLogger (LogLevel config)) InfoLevel
               [(''source_bucket'', Str (SourceBucket config)),
                (''dest_bucket'', Str (DestBucket config)),
                (''dest_prefix'', Str (DestPrefix config)),
                (''dry_run'', Bool (DryRun config))]
               ''Starting S3 sync job'' w)) = None
      then 0 else 1)"
  by (simp add: main_def Let_def split_def split: option.splits)

lemma main_Inr_files:
  "loadConfig order env = Inr config \<Longrightarrow>
   files (snd (main order os env w)) =
   files (snd (runSync os config (setupLogger (LogLevel config))
            (emit (setupLogger (LogLevel config)) InfoLevel
               [(''source_bucket'', Str (SourceBucket config)),
                (''dest_bucket'', Str (DestBucket config)),
                (''dest_prefix'', Str (DestPrefix config)),
                (''dry_run'', Bool (DryRun config))]
               ''Starting S3 sync job'' w)))"
  by (simp add: main_def Let_def split_def split: option.splits)



lemma loadConfig_present:
  assumes "range_order order" and "\<forall>k\<in>set required_names. Getenv env k \<noteq> []"
  shows "\<exists>config. loadConfig order env = Inr config"
  using loadConfig_succeeds[OF assms] loadConfig_empty_order[of env] by simp

lemma env_ok_upd_present:
  "key \<notin> set required_names \<Longrightarrow> \<forall>k\<in>set required_names. Getenv (env_ok(key \<mapsto> v)) k \<noteq> []"
  using env_ok_present by (auto simp: Getenv_def)

lemma env_ok_loads:
  "key \<notin> set required_names \<Longrightarrow> \<exists>config. loadConfig required_names (env_ok(key \<mapsto> v)) = Inr config"
  using loadConfig_present[OF range_order_required_names env_ok_upd_present] by simp

lemma optional_names:
  "''DRY_RUN'' \<notin> set required_names" "''DEST_PREFIX'' \<notin> set required_names"
  "''MAX_DELETE'' \<notin> set required_names" "''RETRIES'' \<notin> set required_names"
  by (simp_all add: required_names_def)

subsection \<open>The loader\<close>

text \<open>
  C7: the dry-run field of a loaded configuration is true exactly when the variable
  \<open>DRY_RUN\<close> is set to the string \<open>true\<close>; unset, or set to anything else
  (\<open>false\<close>, \<open>True\<close>, \<open>TRUE\<close>, \<open>1\<close>), it is false.
\<close>

theorem dry_run_exact_match:
  assumes "loadConfig order env = Inr config"
  shows "DryRun config = (env ''DRY_RUN'' = Some ''true'')"
  using loadConfig_Inr_eq[OF assms] by (simp add: loaded_DryRun)

theorem dry_run_exact_match_witness:
  "(\<exists>config. loadConfig required_names (env_ok(''DRY_RUN'' \<mapsto> ''true'')) = Inr config \<and> DryRun config) \<and>
   (\<exists>config. loadConfig required_names (env_ok(''DRY_RUN'' \<mapsto> ''True'')) = Inr config \<and> \<not> DryRun config) \<and>
   (\<exists>config. loadConfig required_names (env_ok(''DRY_RUN'' \<mapsto> ''TRUE'')) = Inr config \<and> \<not> DryRun config) \<and>
   (\<exists>config. loadConfig required_names (env_ok(''DRY_RUN'' \<mapsto> ''1'')) = Inr config \<and> \<not> DryRun config) \<and>
   (\<exists>config. loadConfig required_names (env_ok(''DRY_RUN'' \<mapsto> ''false'')) = Inr config \<and> \<not> DryRun config) \<and>
   (\<exists>config. loadConfig required_names env_ok = Inr config \<and> \<not> DryRun config)"
proof -
  have v: "\<exists>config. loadConfig required_names (env_ok(''DRY_RUN'' \<mapsto> v)) = Inr config \<and>
             DryRun config = (v = ''true'')" for v
  proof -
    obtain config where c: "loadConfig required_names (env_ok(''DRY_RUN'' \<mapsto> v)) = Inr config"
      using env_ok_loads[OF optional_names(1)] by blast
    from dry_run_exact_match[OF c] have "DryRun config = (v = ''true'')" by simp
    with c show ?thesis by blast
  qed
  obtain config where c: "loadConfig required_names env_ok = Inr config"
    using loadConfig_present[OF range_order_required_names env_ok_present] by blast
  from dry_run_exact_match[OF c] have "\<not> DryRun config" by (simp add: env_ok_def)
  with c have u: "\<exists>config. loadConfig required_names env_ok = Inr config \<and> \<not> DryRun config"
    by blast
  show ?thesis
    using v[of "''true''"] v[of "''True''"] v[of "''TRUE''"] v[of "''1''"] v[of "''false''"] u
    by simp
qed

text \<open>
  C8: when \<open>DEST_PREFIX\<close> is unset or empty, the destination prefix of a loaded
  configuration is the value of \<open>SOURCE_BUCKET\<close> (which is its source bucket); when it
  is set to a non-empty string, the prefix is that string.
\<close>

theorem dest_prefix_default:
  assumes "loadConfig order env = Inr config"
  shows "SourceBucket config = Getenv env ''SOURCE_BUCKET'' \<and>
         DestPrefix config =
           (case env ''DEST_PREFIX'' of
              None \<Rightarrow> Getenv env ''SOURCE_BUCKET''
            | Some p \<Rightarrow> if p = [] then Getenv env ''SOURCE_BUCKET'' else p)"
  using loadConfig_Inr_eq[OF assms]
  by (cases "env ''DEST_PREFIX''") (simp_all add: loaded_DestPrefix loaded_SourceBucket Getenv_def)

theorem dest_prefix_default_witness:
  "(\<exists>config. loadConfig required_names env_ok = Inr config \<and> DestPrefix config = ''media'') \<and>
   (\<exists>config. loadConfig required_names (env_ok(''DEST_PREFIX'' \<mapsto> [])) = Inr config \<and>
      DestPrefix config = ''media'') \<and>
   (\<exists>config. loadConfig required_names (env_ok(''DEST_PREFIX'' \<mapsto> ''mirror/a'')) = Inr config \<and>
      DestPrefix config = ''mirror/a'')"
proof -
  have v: "\<exists>config. loadConfig required_names (env_ok(''DEST_PREFIX'' \<mapsto> v)) = Inr config \<and>
             DestPrefix config = (if v = [] then ''media'' else v)" for v
  proof -
    obtain config where c: "loadConfig required_names (env_ok(''DEST_PREFIX'' \<mapsto> v)) = Inr config"
      using env_ok_loads[OF optional_names(2)] by blast
    from dest_prefix_default[OF c] have "DestPrefix config = (if v = [] then ''media'' else v)"
      by (simp add: Getenv_def env_ok_def)
    with c show ?thesis by blast
  qed
  obtain config where c: "loadConfig required_names env_ok = Inr config"
    using loadConfig_present[OF range_order_required_names env_ok_present] by blast
  from dest_prefix_default[OF c] have "DestPrefix config = ''media''"
    by (simp add: Getenv_def env_ok_def)
  with c have u: "\<exists>config. loadConfig required_names env_ok = Inr config \<and> DestPrefix config = ''media''"
    by blast
  show ?thesis using v[of "[]"] v[of "''mirror/a''"] u by simp
qed

text \<open>
  C9: \<open>MAX_DELETE\<close> and \<open>RETRIES\<close> never make loading fail. In a loaded configuration
  each field is the parsed value when the variable is set and parses as an integer, and
  the default (1000 and 3) when the variable is unset or does not parse.
\<close>

theorem integer_fields_fall_back:
  assumes "loadConfig order env = Inr config"
  shows "MaxDelete config =
           (case env ''MAX_DELETE'' of
              None \<Rightarrow> 1000
            | Some v \<Rightarrow> (case Atoi v of None \<Rightarrow> 1000 | Some i \<Rightarrow> i)) \<and>
         Retries config =
           (case env ''RETRIES'' of
              None \<Rightarrow> 3
            | Some v \<Rightarrow> (case Atoi v of None \<Rightarrow> 3 | Some i \<Rightarrow> i)) \<and>
         (\<forall>v r. \<exists>config'. loadConfig order (env(''MAX_DELETE'' \<mapsto> v, ''RETRIES'' \<mapsto> r)) = Inr config')"
proof -
  have c: "config = projr (loadConfig [] env)" by (rule loadConfig_Inr_eq[OF assms])
  have none: "range_required (env_required env) order = None"
    using assms loadConfig_cases[of order env]
    by (cases "range_required (env_required env) order") auto
  have "\<exists>config'. loadConfig order (env(''MAX_DELETE'' \<mapsto> v, ''RETRIES'' \<mapsto> r)) = Inr config'" for v r
  proof -
    have "env_required (env(''MAX_DELETE'' \<mapsto> v, ''RETRIES'' \<mapsto> r)) = env_required env"
      by (simp add: env_required_other optional_names)
    then show ?thesis
      using none loadConfig_cases[of order "env(''MAX_DELETE'' \<mapsto> v, ''RETRIES'' \<mapsto> r)"]
        loadConfig_empty_order[of "env(''MAX_DELETE'' \<mapsto> v, ''RETRIES'' \<mapsto> r)"]
      by simp
  qed
  then show ?thesis
    by (simp add: c loaded_MaxDelete loaded_Retries getEnvIntOrDefault_cases)
qed

theorem integer_fields_fall_back_witness:
  "(\<exists>config. loadConfig required_names env_ok = Inr config \<and>
      MaxDelete config = 1000 \<and> Retries config = 3) \<and>
   (\<exists>config. loadConfig required_names
        (env_ok(''MAX_DELETE'' \<mapsto> ''not-a-number'', ''RETRIES'' \<mapsto> ''7'')) = Inr config \<and>
      MaxDelete config = 1000 \<and> Retries config = 7) \<and>
   (\<exists>config. loadConfig required_names
        (env_ok(''MAX_DELETE'' \<mapsto> ''50'', ''RETRIES'' \<mapsto> ''3x'')) = Inr config \<and>
      MaxDelete config = 50 \<and> Retries config = 3)"
proof -
  obtain config where c: "loadConfig required_names env_ok = Inr config"
    using loadConfig_present[OF range_order_required_names env_ok_present] by blast
  note t = integer_fields_fall_back[OF c]
  from t have d: "MaxDelete config = 1000 \<and> Retries config = 3"
    by (simp add: env_ok_def)
  from t obtain c1 where c1: "loadConfig required_names
      (env_ok(''MAX_DELETE'' \<mapsto> ''not-a-number'', ''RETRIES'' \<mapsto> ''7'')) = Inr c1"
    by blast
  from t obtain c2 where c2: "loadConfig required_names
      (env_ok(''MAX_DELETE'' \<mapsto> ''50'', ''RETRIES'' \<mapsto> ''3x'')) = Inr c2"
    by blast
  have a: "Atoi ''not-a-number'' = None" "Atoi ''7'' = Some 7" "Atoi ''50'' = Some 50"
    "Atoi ''3x'' = None"
    by (simp_all add: Atoi_def digit_val_def)
  from integer_fields_fall_back[OF c1] have d1: "MaxDelete c1 = 1000 \<and> Retries c1 = 7"
    by (simp add: a)
  from integer_fields_fall_back[OF c2] have d2: "MaxDelete c2 = 50 \<and> Retries c2 = 3"
    by (simp add: a)
  show ?thesis using c d c1 d1 c2 d2 by blast
qed


text \<open>
  C1: whatever order validation visits the variables in, an environment in which one of
  the eight required variables is unset or empty makes loading fail with an error that
  names a variable which is unset or empty, and \<open>main\<close> then exits with status 1 having
  only written the message to the error stream (no file, no directory, no command, no
  log record); an environment in which all eight are non-empty loads.
\<close>

theorem missing_variable_stops_before_effects:
  assumes "range_order order"
  shows "((\<exists>k\<in>set required_names. env k = None \<or> env k = Some []) \<longrightarrow>
            (\<exists>k\<in>set required_names. (env k = None \<or> env k = Some []) \<and>
               loadConfig order env =
                 Inl (Wrapped ''configuration validation failed'' (MissingVariable k)) \<and>
               main order os env w =
                 (1, w\<lparr>stderr := stderr w @
                    ''Configuration error: configuration validation failed: '' @
                    ''required environment variable '' @ k @ '' is not set\<newline>''\<rparr>))) \<and>
         ((\<forall>k\<in>set required_names. env k \<noteq> None \<and> env k \<noteq> Some []) \<longrightarrow>
            (\<exists>config. loadConfig order env = Inr config))"
proof (intro conjI impI)
  assume "\<exists>k\<in>set required_names. env k = None \<or> env k = Some []"
  then obtain k0 where k0: "k0 \<in> set required_names" "Getenv env k0 = []"
    by (auto simp: Getenv_empty_iff)
  from loadConfig_fails[OF assms k0] obtain k where
    k: "k \<in> set required_names" "Getenv env k = []"
      "loadConfig order env =
         Inl (Wrapped ''configuration validation failed'' (MissingVariable k))"
    by blast
  have "main order os env w =
      (1, w\<lparr>stderr := stderr w @
         ''Configuration error: configuration validation failed: '' @
         ''required environment variable '' @ k @ '' is not set\<newline>''\<rparr>)"
    using main_Inl[OF k(3), of os w] by simp
  with k show "\<exists>k\<in>set required_names. (env k = None \<or> env k = Some []) \<and>
      loadConfig order env =
        Inl (Wrapped ''configuration validation failed'' (MissingVariable k)) \<and>
      main order os env w =
        (1, w\<lparr>stderr := stderr w @
           ''Configuration error: configuration validation failed: '' @
           ''required environment variable '' @ k @ '' is not set\<newline>''\<rparr>)"
    by (auto simp: Getenv_empty_iff)
next
  assume "\<forall>k\<in>set required_names. env k \<noteq> None \<and> env k \<noteq> Some []"
  then have "\<forall>k\<in>set required_names. Getenv env k \<noteq> []"
    by (simp add: Getenv_empty_iff)
  from loadConfig_present[OF assms this] show "\<exists>config. loadConfig order env = Inr config" .
qed

theorem missing_variable_stops_before_effects_witness:
  "range_order required_names \<and>
   env_ok ''DEST_BUCKET'' \<noteq> None \<and>
   (env_ok(''DEST_BUCKET'' := None)) ''DEST_BUCKET'' = None \<and>
   (env_ok(''SOURCE_SECRET_KEY'' \<mapsto> [])) ''SOURCE_SECRET_KEY'' = Some [] \<and>
   main required_names os_ok (env_ok(''DEST_BUCKET'' := None)) world0 =
     (1, world0\<lparr>stderr :=
        ''Configuration error: configuration validation failed: '' @
        ''required environment variable DEST_BUCKET is not set\<newline>''\<rparr>) \<and>
   main required_names os_ok (env_ok(''SOURCE_SECRET_KEY'' \<mapsto> [])) world0 =
     (1, world0\<lparr>stderr :=
        ''Configuration error: configuration validation failed: '' @
        ''required environment variable SOURCE_SECRET_KEY is not set\<newline>''\<rparr>) \<and>
   (\<exists>config. loadConfig required_names env_ok = Inr config)"
proof -
  note r = range_order_required_names
  let ?e1 = "env_ok(''DEST_BUCKET'' := None)"
  let ?e2 = "env_ok(''SOURCE_SECRET_KEY'' \<mapsto> [])"
  have s0: "stderr world0 = []" by (simp add: world0_def)
  have m1: "\<exists>k\<in>set required_names. ?e1 k = None \<or> ?e1 k = Some []"
    by (simp add: required_names_def)
  from missing_variable_stops_before_effects[OF r, of ?e1 os_ok world0] m1
  obtain k where k: "k \<in> set required_names" "?e1 k = None \<or> ?e1 k = Some []"
    "main required_names os_ok ?e1 world0 =
       (1, world0\<lparr>stderr := stderr world0 @
          ''Configuration error: configuration validation failed: '' @
          ''required environment variable '' @ k @ '' is not set\<newline>''\<rparr>)"
    by blast
  from k(1,2) have "k = ''DEST_BUCKET''"
    unfolding required_names_def env_ok_def by (simp, elim disjE, simp_all)
  with k(3) s0 have a1: "main required_names os_ok ?e1 world0 =
     (1, world0\<lparr>stderr :=
        ''Configuration error: configuration validation failed: '' @
        ''required environment variable DEST_BUCKET is not set\<newline>''\<rparr>)"
    by simp
  have m2: "\<exists>k\<in>set required_names. ?e2 k = None \<or> ?e2 k = Some []"
    by (simp add: required_names_def)
  from missing_variable_stops_before_effects[OF r, of ?e2 os_ok world0] m2
  obtain k' where k': "k' \<in> set required_names" "?e2 k' = None \<or> ?e2 k' = Some []"
    "main required_names os_ok ?e2 world0 =
       (1, world0\<lparr>stderr := stderr world0 @
          ''Configuration error: configuration validation failed: '' @
          ''required environment variable '' @ k' @ '' is not set\<newline>''\<rparr>)"
    by blast
  from k'(1,2) have "k' = ''SOURCE_SECRET_KEY''"
    unfolding required_names_def env_ok_def by (simp, elim disjE, simp_all)
  with k'(3) s0 have a2: "main required_names os_ok ?e2 world0 =
     (1, world0\<lparr>stderr :=
        ''Configuration error: configuration validation failed: '' @
        ''required environment variable SOURCE_SECRET_KEY is not set\<newline>''\<rparr>)"
    by simp
  have p: "\<forall>k\<in>set required_names. env_ok k \<noteq> None \<and> env_ok k \<noteq> Some []"
    using env_ok_present by (simp add: Getenv_empty_iff)
  have a3: "\<exists>config. loadConfig required_names env_ok = Inr config"
    using missing_variable_stops_before_effects[OF r, of env_ok os_ok world0] p by blast
  have "env_ok ''DEST_BUCKET'' \<noteq> None" by (simp add: env_ok_def)
  with r a1 a2 a3 show ?thesis by simp
qed

text \<open>
  C10: in whatever order the map of required values is visited, when one or more of
  them is empty \<open>validateConfig\<close> returns an error that names exactly one variable, and
  that variable is one whose value is empty. Which one it is depends on the order of the
  iteration: every variable with an empty value is the one named under some order, so
  with two of them empty there are two orders that give different errors for the same
  configuration.
\<close>

theorem validation_names_one_missing_variable:
  assumes "range_order order" and "k1 \<in> set required_names" and "required config k1 = Some []"
  shows "(\<exists>!k. validateConfig order config = Some (MissingVariable k)) \<and>
         (\<forall>k. validateConfig order config = Some (MissingVariable k) \<longrightarrow>
              k \<in> set required_names \<and> required config k = Some []) \<and>
         (\<exists>order'. range_order order' \<and>
              validateConfig order' config = Some (MissingVariable k1)) \<and>
         (\<forall>k2\<in>set required_names. required config k2 = Some [] \<and> k2 \<noteq> k1 \<longrightarrow>
              (\<exists>o1 o2. range_order o1 \<and> range_order o2 \<and>
                 validateConfig o1 config \<noteq> validateConfig o2 config))"
proof -
  have front: "range_order (k # remove1 k required_names) \<and>
      validateConfig (k # remove1 k required_names) config = Some (MissingVariable k)"
    if "k \<in> set required_names" "required config k = Some []" for k
    using that range_order_front[of k] by (simp add: validateConfig_def)
  have "validateConfig order config \<noteq> None"
    using assms by (auto simp: validateConfig_def range_required_None range_order_def)
  then obtain e where e: "range_required (required config) order = Some e"
    by (auto simp: validateConfig_def)
  from range_required_Some[OF e] obtain k where
    k: "k \<in> set order" "e = MissingVariable k" "required config k = Some []" by blast
  have one: "\<exists>!k. validateConfig order config = Some (MissingVariable k)"
    using e k(2) by (auto simp: validateConfig_def)
  have named: "\<forall>k'. validateConfig order config = Some (MissingVariable k') \<longrightarrow>
      k' \<in> set required_names \<and> required config k' = Some []"
    using e k assms(1) by (auto simp: validateConfig_def range_order_def)
  have some: "\<exists>order'. range_order order' \<and>
      validateConfig order' config = Some (MissingVariable k1)"
    using front[OF assms(2,3)] by blast
  have two: "\<forall>k2\<in>set required_names. required config k2 = Some [] \<and> k2 \<noteq> k1 \<longrightarrow>
      (\<exists>o1 o2. range_order o1 \<and> range_order o2 \<and>
         validateConfig o1 config \<noteq> validateConfig o2 config)"
  proof (intro ballI impI)
    fix k2 assume k2: "k2 \<in> set required_names" "required config k2 = Some [] \<and> k2 \<noteq> k1"
    from front[OF assms(2,3)] front[OF k2(1)] k2(2)
    have "range_order (k1 # remove1 k1 required_names) \<and>
          range_order (k2 # remove1 k2 required_names) \<and>
          validateConfig (k1 # remove1 k1 required_names) config \<noteq>
          validateConfig (k2 # remove1 k2 required_names) config"
      by auto
    then show "\<exists>o1 o2. range_order o1 \<and> range_order o2 \<and>
         validateConfig o1 config \<noteq> validateConfig o2 config"
      by blast
  qed
  from one named some two show ?thesis by blast
qed

theorem validation_names_one_missing_variable_witness:
  "range_order required_names \<and> range_order (rev required_names) \<and>
   required (config_ok\<lparr>SourceBucket := [], DestBucket := []\<rparr>) ''SOURCE_BUCKET'' = Some [] \<and>
   required (config_ok\<lparr>SourceBucket := [], DestBucket := []\<rparr>) ''DEST_BUCKET'' = Some [] \<and>
   (\<exists>!k. validateConfig required_names (config_ok\<lparr>SourceBucket := [], DestBucket := []\<rparr>) =
      Some (MissingVariable k)) \<and>
   validateConfig required_names (config_ok\<lparr>SourceBucket := [], DestBucket := []\<rparr>) =
     Some (MissingVariable ''SOURCE_BUCKET'') \<and>
   validateConfig (rev required_names) (config_ok\<lparr>SourceBucket := [], DestBucket := []\<rparr>) =
     Some (MissingVariable ''DEST_BUCKET'')"
proof -
  let ?c = "config_ok\<lparr>SourceBucket := [], DestBucket := []\<rparr>"
  have n: "''SOURCE_BUCKET'' \<in> set required_names" by (simp add: required_names_def)
  have s: "required ?c ''SOURCE_BUCKET'' = Some []" by (simp add: required_def)
  have d: "required ?c ''DEST_BUCKET'' = Some []" by (simp add: required_def)
  have v1: "validateConfig required_names ?c = Some (MissingVariable ''SOURCE_BUCKET'')"
    by (simp add: validateConfig_def required_names_def required_def config_ok_def)
  have v2: "validateConfig (rev required_names) ?c = Some (MissingVariable ''DEST_BUCKET'')"
    by (simp add: validateConfig_def required_names_def required_def config_ok_def)
  from validation_names_one_missing_variable[OF range_order_required_names n s]
  have "\<exists>!k. validateConfig required_names ?c = Some (MissingVariable k)" by blast
  with range_order_required_names range_order_rev s d v1 v2 show ?thesis by simp
qed


subsection \<open>Running the engine\<close>

text \<open>
  C2: once the credential file is written, \<open>runSync\<close> returns no error exactly when
  the child process exits with status zero; a non-zero exit status and a process that
  could not be started give the error of \<open>cmd.Run\<close> wrapped as
  \<open>rclone sync failed: ...\<close>, and \<open>main\<close> then exits with status 1; and on each of
  these paths the credential file is gone when \<open>runSync\<close> returns, hence when
  \<open>main\<close> does.
\<close>

theorem sync_succeeds_iff_exit_zero:
  assumes "fst (createRcloneConfig os config w) = Inr configFile"
  shows "(fst (runSync os config logger w) = None \<longleftrightarrow> run_result os = Exited 0) \<and>
         (\<forall>status. run_result os = Exited status \<and> status \<noteq> 0 \<longrightarrow>
            fst (runSync os config logger w) =
              Some (Wrapped ''rclone sync failed''
                      (External (''exit status '' @ Itoa (int status))))) \<and>
         (\<forall>msg. run_result os = StartFailed msg \<longrightarrow>
            fst (runSync os config logger w) =
              Some (Wrapped ''rclone sync failed'' (External msg))) \<and>
         files (snd (runSync os config logger w)) configFile = None \<and>
         (\<forall>order env w0. loadConfig order env = Inr config \<longrightarrow>
            (fst (main order os env w0) = 0 \<longleftrightarrow> run_result os = Exited 0) \<and>
            (run_result os \<noteq> Exited 0 \<longrightarrow> fst (main order os env w0) = 1) \<and>
            files (snd (main order os env w0)) configFile = None)"
proof -
  have any: "fst (createRcloneConfig os config w') = Inr configFile" for w'
    using assms createRcloneConfig_fst_any[of os config w' config w] by simp
  have iff: "fst (runSync os config l w') = None \<longleftrightarrow> run_result os = Exited 0" for l w'
    by (cases "run_result os") (simp_all add: runSync_result[OF any])
  have exited: "\<forall>status. run_result os = Exited status \<and> status \<noteq> 0 \<longrightarrow>
      fst (runSync os config logger w) =
        Some (Wrapped ''rclone sync failed'' (External (''exit status '' @ Itoa (int status))))"
    by (simp add: runSync_result[OF any])
  have start: "\<forall>msg. run_result os = StartFailed msg \<longrightarrow>
      fst (runSync os config logger w) = Some (Wrapped ''rclone sync failed'' (External msg))"
    by (simp add: runSync_result[OF any])
  have gone: "files (snd (runSync os config l w')) configFile = None" for l w'
    by (rule runSync_files[OF any])
  have top: "\<forall>order env w0. loadConfig order env = Inr config \<longrightarrow>
      (fst (main order os env w0) = 0 \<longleftrightarrow> run_result os = Exited 0) \<and>
      (run_result os \<noteq> Exited 0 \<longrightarrow> fst (main order os env w0) = 1) \<and>
      files (snd (main order os env w0)) configFile = None"
    by (simp add: main_Inr_status main_Inr_files iff gone)
  from iff exited start gone top show ?thesis by blast
qed

theorem sync_succeeds_iff_exit_zero_witness:
  "fst (createRcloneConfig os_ok config_ok world0) = Inr ''/tmp/rclone-config/rclone.conf'' \<and>
   fst (runSync os_ok config_ok InfoLevel world0) = None \<and>
   fst (runSync (os_ok\<lparr>run_result := Exited 2\<rparr>) config_ok InfoLevel world0) =
     Some (Wrapped ''rclone sync failed'' (External ''exit status 2'')) \<and>
   fst (runSync (os_ok\<lparr>run_result := StartFailed ''exec: no rclone''\<rparr>) config_ok InfoLevel world0) =
     Some (Wrapped ''rclone sync failed'' (External ''exec: no rclone'')) \<and>
   files (snd (runSync os_ok config_ok InfoLevel world0)) ''/tmp/rclone-config/rclone.conf'' = None \<and>
   files (snd (runSync (os_ok\<lparr>run_result := Exited 2\<rparr>) config_ok InfoLevel world0))
     ''/tmp/rclone-config/rclone.conf'' = None \<and>
   files (snd (runSync (os_ok\<lparr>run_result := StartFailed ''exec: no rclone''\<rparr>) config_ok
     InfoLevel world0)) ''/tmp/rclone-config/rclone.conf'' = None"
proof -
  let ?p = "''/tmp/rclone-config/rclone.conf''"
  have c: "fst (createRcloneConfig (os_ok\<lparr>run_result := r\<rparr>) config_ok world0) = Inr ?p" for r
    by (simp add: createRcloneConfig_fst os_ok_def)
  have c0: "fst (createRcloneConfig os_ok config_ok world0) = Inr ?p"
    by (simp add: createRcloneConfig_fst os_ok_def)
  have i: "Itoa 2 = ''2''" by (simp add: Itoa_def)
  note t0 = sync_succeeds_iff_exit_zero[OF c0, of InfoLevel]
  note t1 = sync_succeeds_iff_exit_zero[OF c[of "Exited 2"], of InfoLevel]
  note t2 = sync_succeeds_iff_exit_zero[OF c[of "StartFailed ''exec: no rclone''"], of InfoLevel]
  have r0: "fst (runSync os_ok config_ok InfoLevel world0) = None"
    using t0 by (simp add: os_ok_def)
  have r1: "fst (runSync (os_ok\<lparr>run_result := Exited 2\<rparr>) config_ok InfoLevel world0) =
     Some (Wrapped ''rclone sync failed'' (External ''exit status 2''))"
    using t1 i by simp
  have r2: "fst (runSync (os_ok\<lparr>run_result := StartFailed ''exec: no rclone''\<rparr>) config_ok
      InfoLevel world0) = Some (Wrapped ''rclone sync failed'' (External ''exec: no rclone''))"
    using t2 by simp
  from c0 r0 r1 r2 t0 t1 t2 show ?thesis by blast
qed

text \<open>
  C5: once the credential file is written, \<open>runSync\<close> runs \<open>rclone\<close> with an
  argument list that starts with \<open>sync\<close>, the source remote \<open>source:<source bucket>\<close>
  and the destination remote \<open>dest:<dest bucket>/<dest prefix>\<close>, and that carries,
  read as a command line, the flags \<open>--delete-during\<close> and \<open>--checksum\<close>, \<open>--stats\<close>
  with value \<open>1m\<close>, \<open>--stats-log-level\<close> with value \<open>INFO\<close>, and always \<open>--retries\<close>
  with the decimal rendering of the configured retry count.
\<close>

theorem sync_arguments:
  assumes "fst (createRcloneConfig os config w) = Inr configFile"
  shows "\<exists>args.
           commands (snd (runSync os config logger w)) = commands w @ [(''rclone'', args)] \<and>
           take 3 args =
             [''sync'', ''source:'' @ SourceBucket config,
              ''dest:'' @ DestBucket config @ ''/'' @ DestPrefix config] \<and>
           map_of (read_flags args) ''--delete-during'' = Some None \<and>
           map_of (read_flags args) ''--checksum'' = Some None \<and>
           map_of (read_flags args) ''--stats'' = Some (Some ''1m'') \<and>
           map_of (read_flags args) ''--stats-log-level'' = Some (Some ''INFO'') \<and>
           map_of (read_flags args) ''--retries'' = Some (Some (Itoa (Retries config)))"
  by (rule exI, rule conjI, rule runSync_commands[OF assms]) (simp add: takes_value_def)

theorem sync_arguments_witness:
  "fst (createRcloneConfig os_ok config_ok world0) = Inr ''/tmp/rclone-config/rclone.conf'' \<and>
   (\<exists>args.
      commands (snd (runSync os_ok config_ok InfoLevel world0)) = [(''rclone'', args)] \<and>
      take 3 args = [''sync'', ''source:media'', ''dest:backup/media''] \<and>
      map_of (read_flags args) ''--retries'' = Some (Some ''3''))"
proof -
  have c0: "fst (createRcloneConfig os_ok config_ok world0) = Inr ''/tmp/rclone-config/rclone.conf''"
    by (simp add: createRcloneConfig_fst os_ok_def)
  have i: "Itoa 3 = ''3''" by (simp add: Itoa_def)
  from sync_arguments[OF c0, of InfoLevel] obtain args where
    a: "commands (snd (runSync os_ok config_ok InfoLevel world0)) =
          commands world0 @ [(''rclone'', args)]"
       "take 3 args =
          [''sync'', ''source:'' @ SourceBucket config_ok,
           ''dest:'' @ DestBucket config_ok @ ''/'' @ DestPrefix config_ok]"
       "map_of (read_flags args) ''--retries'' = Some (Some (Itoa (Retries config_ok)))"
    by blast
  have "commands (snd (runSync os_ok config_ok InfoLevel world0)) = [(''rclone'', args)]"
    using a(1) by (simp add: world0_def)
  moreover have "take 3 args = [''sync'', ''source:media'', ''dest:backup/media'']"
    using a(2) by (simp add: config_ok_def)
  moreover have "map_of (read_flags args) ''--retries'' = Some (Some ''3'')"
    using a(3) i by (simp add: config_ok_def)
  ultimately show ?thesis using c0 by blast
qed

text \<open>
  C6: in that argument list, read as a command line, \<open>--dry-run\<close> is present exactly
  when the dry-run field is true, \<open>--max-delete\<close> is present exactly when the
  max-delete field is positive and then has its decimal rendering as value, and
  \<open>--bwlimit\<close> is present exactly when the bandwidth limit is a non-empty string and
  then has that string as value.
\<close>

theorem conditional_arguments:
  assumes "fst (createRcloneConfig os config w) = Inr configFile"
  shows "\<exists>args.
           commands (snd (runSync os config logger w)) = commands w @ [(''rclone'', args)] \<and>
           map_of (read_flags args) ''--dry-run'' =
             (if DryRun config then Some None else None) \<and>
           map_of (read_flags args) ''--max-delete'' =
             (if MaxDelete config > 0 then Some (Some (Itoa (MaxDelete config))) else None) \<and>
           map_of (read_flags args) ''--bwlimit'' =
             (if BandwidthLimit config \<noteq> [] then Some (Some (BandwidthLimit config)) else None)"
  by (rule exI, rule conjI, rule runSync_commands[OF assms]) (simp add: takes_value_def)


theorem conditional_arguments_witness:
  "fst (createRcloneConfig os_ok config_ok world0) = Inr ''/tmp/rclone-config/rclone.conf'' \<and>
   (\<exists>args.
      commands (snd (runSync os_ok
         (config_ok\<lparr>DryRun := True, MaxDelete := 50, BandwidthLimit := ''50M''\<rparr>)
         InfoLevel world0)) = [(''rclone'', args)] \<and>
      map_of (read_flags args) ''--dry-run'' = Some None \<and>
      map_of (read_flags args) ''--max-delete'' = Some (Some ''50'') \<and>
      map_of (read_flags args) ''--bwlimit'' = Some (Some ''50M'')) \<and>
   (\<exists>args.
      commands (snd (runSync os_ok
         (config_ok\<lparr>MaxDelete := 0, BandwidthLimit := ''--dry-run''\<rparr>)
         InfoLevel world0)) = [(''rclone'', args)] \<and>
      map_of (read_flags args) ''--dry-run'' = None \<and>
      map_of (read_flags args) ''--max-delete'' = None \<and>
      map_of (read_flags args) ''--bwlimit'' = Some (Some ''--dry-run''))"
proof -
  have c: "fst (createRcloneConfig os_ok cfg world0) = Inr ''/tmp/rclone-config/rclone.conf''" for cfg
    by (simp add: createRcloneConfig_fst os_ok_def)
  have i: "Itoa 50 = ''50''" by (simp add: Itoa_def)
  have w: "commands world0 = []" by (simp add: world0_def)
  have "\<exists>args.
      commands (snd (runSync os_ok
         (config_ok\<lparr>DryRun := True, MaxDelete := 50, BandwidthLimit := ''50M''\<rparr>)
         InfoLevel world0)) = [(''rclone'', args)] \<and>
      map_of (read_flags args) ''--dry-run'' = Some None \<and>
      map_of (read_flags args) ''--max-delete'' = Some (Some ''50'') \<and>
      map_of (read_flags args) ''--bwlimit'' = Some (Some ''50M'')"
    using conditional_arguments[OF c, of
        "config_ok\<lparr>DryRun := True, MaxDelete := 50, BandwidthLimit := ''50M''\<rparr>" InfoLevel] i w
    by simp
  moreover have "\<exists>args.
      commands (snd (runSync os_ok
         (config_ok\<lparr>MaxDelete := 0, BandwidthLimit := ''--dry-run''\<rparr>)
         InfoLevel world0)) = [(''rclone'', args)] \<and>
      map_of (read_flags args) ''--dry-run'' = None \<and>
      map_of (read_flags args) ''--max-delete'' = None \<and>
      map_of (read_flags args) ''--bwlimit'' = Some (Some ''--dry-run'')"
    using conditional_arguments[OF c, of
        "config_ok\<lparr>MaxDelete := 0, BandwidthLimit := ''--dry-run''\<rparr>" InfoLevel] w
    by (simp add: config_ok_def)
  ultimately show ?thesis using c[of config_ok] by blast
qed

subsection \<open>The log\<close>

lemma main_records_keys:
  assumes "loadConfig order env = Inr config"
    and "loadConfig order env' =
           Inr (config\<lparr>SourceAccessKey := a, SourceSecretKey := b,
                  DestAccessKey := c, DestSecretKey := d\<rparr>)"
  shows "records (snd (main order os env' w)) = records (snd (main order os env w))"
proof -
  let ?l = "setupLogger (LogLevel config)"
  let ?w1 = "emit ?l InfoLevel
               [(''source_bucket'', Str (SourceBucket config)),
                (''dest_bucket'', Str (DestBucket config)),
                (''dest_prefix'', Str (DestPrefix config)),
                (''dry_run'', Bool (DryRun config))]
               ''Starting S3 sync job'' w"
  show ?thesis
    by (cases "fst (runSync os config ?l ?w1)")
       (simp_all add: main_def assms Let_def split_def runSync_fst_keys runSync_records_keys
          emit_records)
qed

lemma keys_validation:
  assumes "a \<noteq> []" "b \<noteq> []" "c \<noteq> []" "d \<noteq> []" "a' \<noteq> []" "b' \<noteq> []" "c' \<noteq> []" "d' \<noteq> []"
  shows "range_required
           (env_required (env(''SOURCE_ACCESS_KEY'' \<mapsto> a, ''SOURCE_SECRET_KEY'' \<mapsto> b,
              ''DEST_ACCESS_KEY'' \<mapsto> c, ''DEST_SECRET_KEY'' \<mapsto> d))) order =
         range_required
           (env_required (env(''SOURCE_ACCESS_KEY'' \<mapsto> a', ''SOURCE_SECRET_KEY'' \<mapsto> b',
              ''DEST_ACCESS_KEY'' \<mapsto> c', ''DEST_SECRET_KEY'' \<mapsto> d'))) order"
  by (rule range_required_cong) (simp add: env_required_def Getenv_def assms)

lemma keys_loaded:
  "projr (loadConfig [] (env(''SOURCE_ACCESS_KEY'' \<mapsto> a, ''SOURCE_SECRET_KEY'' \<mapsto> b,
      ''DEST_ACCESS_KEY'' \<mapsto> c, ''DEST_SECRET_KEY'' \<mapsto> d))) =
   (projr (loadConfig [] env))\<lparr>SourceAccessKey := a, SourceSecretKey := b,
      DestAccessKey := c, DestSecretKey := d\<rparr>"
  by (simp add: loadConfig_def Let_def validateConfig_def getEnvOrDefault_def
      getEnvIntOrDefault_def Getenv_def)


text \<open>
  C4: the log records do not depend on the access keys and secret keys. The records
  \<open>runSync\<close> emits (the record before the invocation, with the remotes and the argument
  list, and the record after it, with the duration and the success flag) are the same
  whatever the four key fields of the configuration are; and two runs of \<open>main\<close> in
  environments that differ only in the values of the four key variables, non-empty in
  both, emit the same records.
\<close>

theorem log_records_independent_of_keys:
  "records (snd (runSync os
      (config\<lparr>SourceAccessKey := a, SourceSecretKey := b, DestAccessKey := c, DestSecretKey := d\<rparr>)
      logger w)) =
   records (snd (runSync os config logger w)) \<and>
   (a \<noteq> [] \<and> b \<noteq> [] \<and> c \<noteq> [] \<and> d \<noteq> [] \<and> a' \<noteq> [] \<and> b' \<noteq> [] \<and> c' \<noteq> [] \<and> d' \<noteq> [] \<longrightarrow>
      records (snd (main order os
        (env(''SOURCE_ACCESS_KEY'' \<mapsto> a, ''SOURCE_SECRET_KEY'' \<mapsto> b,
             ''DEST_ACCESS_KEY'' \<mapsto> c, ''DEST_SECRET_KEY'' \<mapsto> d)) w)) =
      records (snd (main order os
        (env(''SOURCE_ACCESS_KEY'' \<mapsto> a', ''SOURCE_SECRET_KEY'' \<mapsto> b',
             ''DEST_ACCESS_KEY'' \<mapsto> c', ''DEST_SECRET_KEY'' \<mapsto> d')) w)))"
proof (intro conjI impI)
  show "records (snd (runSync os
      (config\<lparr>SourceAccessKey := a, SourceSecretKey := b, DestAccessKey := c, DestSecretKey := d\<rparr>)
      logger w)) = records (snd (runSync os config logger w))"
    by (rule runSync_records_keys)
next
  let ?e1 = "env(''SOURCE_ACCESS_KEY'' \<mapsto> a, ''SOURCE_SECRET_KEY'' \<mapsto> b,
                 ''DEST_ACCESS_KEY'' \<mapsto> c, ''DEST_SECRET_KEY'' \<mapsto> d)"
  let ?e2 = "env(''SOURCE_ACCESS_KEY'' \<mapsto> a', ''SOURCE_SECRET_KEY'' \<mapsto> b',
                 ''DEST_ACCESS_KEY'' \<mapsto> c', ''DEST_SECRET_KEY'' \<mapsto> d')"
  let ?c0 = "projr (loadConfig [] env)"
  let ?c2 = "?c0\<lparr>SourceAccessKey := a', SourceSecretKey := b',
                    DestAccessKey := c', DestSecretKey := d'\<rparr>"
  assume ne: "a \<noteq> [] \<and> b \<noteq> [] \<and> c \<noteq> [] \<and> d \<noteq> [] \<and> a' \<noteq> [] \<and> b' \<noteq> [] \<and> c' \<noteq> [] \<and> d' \<noteq> []"
  then have v: "range_required (env_required ?e1) order = range_required (env_required ?e2) order"
    using keys_validation[of a b c d a' b' c' d' env order] by simp
  show "records (snd (main order os ?e1 w)) = records (snd (main order os ?e2 w))"
  proof (cases "range_required (env_required ?e2) order")
    case (Some err)
    then have "loadConfig order ?e1 = Inl (Wrapped ''configuration validation failed'' err)"
      and "loadConfig order ?e2 = Inl (Wrapped ''configuration validation failed'' err)"
      using v loadConfig_cases[of order ?e1] loadConfig_cases[of order ?e2] by simp_all
    then show ?thesis by (simp add: main_Inl)
  next
    case None
    have l: "loadConfig [] e = Inr (projr (loadConfig [] e))" for e
      using loadConfig_empty_order[of e] by auto
    have l2: "loadConfig order ?e2 = Inr ?c2"
      using None loadConfig_cases[of order ?e2] l[of ?e2] by (simp add: keys_loaded)
    have "loadConfig order ?e1 =
        Inr (?c0\<lparr>SourceAccessKey := a, SourceSecretKey := b,
               DestAccessKey := c, DestSecretKey := d\<rparr>)"
      using None v loadConfig_cases[of order ?e1] l[of ?e1] by (simp add: keys_loaded)
    then have l1: "loadConfig order ?e1 =
        Inr (?c2\<lparr>SourceAccessKey := a, SourceSecretKey := b,
               DestAccessKey := c, DestSecretKey := d\<rparr>)"
      by simp
    show ?thesis by (rule main_records_keys[OF l2 l1])
  qed
qed

theorem log_records_independent_of_keys_witness:
  "records (snd (main required_names os_ok
      (env_ok(''SOURCE_ACCESS_KEY'' \<mapsto> ''AK1'', ''SOURCE_SECRET_KEY'' \<mapsto> ''SK1'',
              ''DEST_ACCESS_KEY'' \<mapsto> ''AK2'', ''DEST_SECRET_KEY'' \<mapsto> ''SK2'')) world0)) =
   records (snd (main required_names os_ok
      (env_ok(''SOURCE_ACCESS_KEY'' \<mapsto> ''other'', ''SOURCE_SECRET_KEY'' \<mapsto> ''values'',
              ''DEST_ACCESS_KEY'' \<mapsto> ''of the'', ''DEST_SECRET_KEY'' \<mapsto> ''keys'')) world0))"
  using log_records_independent_of_keys[where os = os_ok and order = required_names
      and env = env_ok and w = world0 and a = "''AK1''" and b = "''SK1''" and c = "''AK2''"
      and d = "''SK2''" and a' = "''other''" and b' = "''values''" and c' = "''of the''"
      and d' = "''keys''"]
  by simp


subsection \<open>The credential file\<close>





subsection \<open>A whole run\<close>

text \<open>
  The end-to-end scenario: the eight required variables and \<open>DRY_RUN=true\<close>, every
  call succeeding and the child exiting with status zero. The directory stays, the
  credential file is gone, five records are logged and one command was run.
\<close>

lemma end_to_end_load:
  "loadConfig required_names (env_ok(''DRY_RUN'' \<mapsto> ''true'')) =
     Inr (config_ok\<lparr>DryRun := True\<rparr>)"
  by (simp add: loadConfig_def Let_def validateConfig_def required_def required_names_def
      getEnvOrDefault_def getEnvIntOrDefault_def Getenv_def env_ok_def config_ok_def)

lemma loadConfig_env_ok: "loadConfig required_names env_ok = Inr config_ok"
  by (simp add: loadConfig_def Let_def validateConfig_def required_def required_names_def
      getEnvOrDefault_def getEnvIntOrDefault_def Getenv_def env_ok_def config_ok_def)

lemma end_to_end_logger: "setupLogger ''info'' = InfoLevel"
  by (simp add: setupLogger_def ParseLevel_def to_lower_def)

lemma ParseLevel_upper_case:
  "ParseLevel ''WARN'' = Some WarnLevel"
  "ParseLevel [CHR ''P'', CHR ''A'', CHR ''N'', CHR 0xC4, CHR 0xB0, CHR ''C''] = Some PanicLevel"
  "ParseLevel ''verbose'' = None"
  by (simp_all add: ParseLevel_def to_lower_def)

lemma end_to_end_run:
  "main required_names os_ok (env_ok(''DRY_RUN'' \<mapsto> ''true'')) world0 =
     (0,
      \<lparr>files = Map.empty,
       dirs = [''/tmp/rclone-config'' \<mapsto> mode_0700],
       stderr = [],
       records =
         [\<lparr>level = InfoLevel, message = ''Starting S3 sync job'',
           data = [(''source_bucket'', Str ''media''), (''dest_bucket'', Str ''backup''),
                   (''dest_prefix'', Str ''media''), (''dry_run'', Bool True)]\<rparr>,
          \<lparr>level = InfoLevel, message = ''Running in dry-run mode - no changes will be made'',
           data = []\<rparr>,
          \<lparr>level = InfoLevel, message = ''Starting rclone sync'',
           data = [(''source'', Str ''source:media''), (''dest'', Str ''dest:backup/media''),
                   (''args'',
                    Strs [''sync'', ''source:media'', ''dest:backup/media'',
                          ''--config'', ''/tmp/rclone-config/rclone.conf'',
                          ''--delete-during'', ''--checksum'', ''--retries'', ''3'',
                          ''--stats'', ''1m'', ''--stats-log-level'', ''INFO'', ''--progress'',
                          ''--dry-run'', ''--max-delete'', ''1000''])]\<rparr>,
          \<lparr>level = InfoLevel, message = ''Sync operation completed'',
           data = [(''duration'', Duration 1500), (''success'', Bool True)]\<rparr>,
          \<lparr>level = InfoLevel, message = ''S3 sync job completed successfully'', data = []\<rparr>],
       commands =
         [(''rclone'',
           [''sync'', ''source:media'', ''dest:backup/media'',
            ''--config'', ''/tmp/rclone-config/rclone.conf'',
            ''--delete-during'', ''--checksum'', ''--retries'', ''3'',
            ''--stats'', ''1m'', ''--stats-log-level'', ''INFO'', ''--progress'',
            ''--dry-run'', ''--max-delete'', ''1000''])]\<rparr>)"
proof -
  have i: "Itoa 3 = ''3''" "Itoa 1000 = ''1000''" by (simp_all add: Itoa_def)
  have c: "LogLevel (config_ok\<lparr>DryRun := True\<rparr>) = ''info''" by (simp add: config_ok_def)
  show ?thesis
    unfolding main_def end_to_end_load sum.case Let_def c end_to_end_logger
    by (simp add: runSync_def createRcloneConfig_def os_MkdirAll_def os_WriteFile_def Let_def
        cmd_Run_def os_Remove_def emit_def config_ok_def os_ok_def world0_def i)
qed



end
